theory Spec2Isabelle
  imports Complex_Main "HOL-Library.AList"
begin

section \<open>Data model\<close>

text \<open>
  The layout engine of \<^verbatim>\<open>src/lib/forceSimulation.ts\<close> and the subtree selector of
  \<^verbatim>\<open>src/app/page.tsx\<close>, over the data of \<^verbatim>\<open>lib/graphData\<close>.

  JavaScript numbers are modelled as exact reals (no rounding, no NaN), except the
  community level, an integer in the data, which is an \<open>int\<close>. An object reference is the
  index of the object in the array that owns it: a node's community is an index into the
  community array, a link's endpoints are indices into the node array. The record fields
  carry a prefix per interface (\<open>e_\<close> Entity, \<open>r_\<close> Relationship, \<open>c_\<close> Community, \<open>n_\<close> Node3D,
  \<open>l_\<close> Link3D), since several interfaces share field names.
\<close>

record entity =
  e_id :: string
  e_human_readable_id :: string
  e_title :: string
  e_type :: string
  e_description :: string
  e_text_unit_ids :: "string list"
  e_frequency :: real
  e_degree :: real

record relationship =
  r_id :: string
  r_human_readable_id :: string
  r_source :: string
  r_target :: string
  r_description :: string
  r_weight :: real
  r_combined_degree :: real
  r_text_unit_ids :: "string list"

record bounds =
  b_center :: "real \<times> real \<times> real"
  b_size :: "real \<times> real \<times> real"
  b_padding :: real

record hierarchy =
  parentCommunities :: "nat list"
  childCommunities :: "nat list"

text \<open>
  The interface declares \<open>children: string[]\<close>; \<open>precomputeCommunityData\<close> nevertheless
  guards against a missing list, so the field is optional here: \<open>None\<close> is a list that is
  undefined at run time. The lists of \<open>computedHierarchy\<close> hold references to communities of
  the same array, hence indices.
\<close>

record community =
  c_id :: string
  c_human_readable_id :: string
  c_community :: string
  c_level :: int
  c_parent :: "string option"
  c_children :: "string list option"
  c_title :: string
  c_entity_ids :: "string list"
  c_relationship_ids :: "string list"
  c_text_unit_ids :: "string list"
  c_period :: string
  c_size :: real
  computedBounds :: "bounds option"
  computedHierarchy :: "hierarchy option"
  computedColor :: "string option"
  computedOpacity :: "real option"

record graphData =
  entities :: "entity list"
  relationships :: "relationship list"
  communities :: "community list"

text \<open>
  The colour a node carries is a colour string, or, for an entity type that names a member
  of \<open>Object.prototype\<close>, that inherited member.
\<close>

datatype jsColor = ColorString string | InheritedMember string

record node3d = entity +
  n_x :: real
  n_y :: real
  n_z :: real
  n_vx :: "real option"
  n_vy :: "real option"
  n_vz :: "real option"
  n_community :: "nat option"
  n_communityLevel :: int
  n_computedSize :: real
  n_computedColor :: jsColor
  abstractionLevel :: real

record link3d =
  l_id :: string
  l_source :: nat
  l_target :: nat
  l_weight :: real
  l_description :: string

record graphLayout =
  gl_nodes :: "node3d list"
  gl_links :: "link3d list"
  gl_communities :: "community list"

record forceConfig =
  chargeStrength :: real
  linkDistance :: real
  linkStrength :: real
  collisionRadius :: real
  communityStrength :: real
  centerStrength :: real
  spread3D :: real
  levelSpacing :: real
  sphericalConstraint :: real

definition defaultForceConfig :: forceConfig where
  "defaultForceConfig =
     \<lparr>chargeStrength = -100, linkDistance = 30, linkStrength = 0.2, collisionRadius = 6,
      communityStrength = 0.2, centerStrength = 0.02, spread3D = 150, levelSpacing = 40,
      sphericalConstraint = 0.05\<rparr>"

record center =
  ctr_x :: real
  ctr_y :: real
  ctr_z :: real
  ctr_radius :: real

text \<open>
  The d3 simulation object, as far as the engine drives it: the energy \<open>alpha\<close> with its
  decay, floor and target, whether the internal timer is running, and for each built-in
  force the configuration value its accessor was last installed with (\<open>None\<close>: the default
  force of the constructor). The two custom forces read the configuration at every tick
  and keep no parameter of their own.
\<close>

record d3sim =
  alpha :: real
  alphaMin :: real
  alphaDecay :: real
  alphaTarget :: real
  running :: bool
  f_charge :: "real option"
  f_linkDistance :: "real option"
  f_linkStrength :: "real option"
  f_linkBound :: bool
  f_center :: "real option"
  f_collision :: "real option"
  f_community :: bool
  f_spherical :: bool

record engine =
  config :: forceConfig
  nodes :: "node3d list"
  links :: "link3d list"
  comms :: "community list"
  communityCenters :: "string \<rightharpoonup> center"
  simulation :: d3sim
  console :: "string list"

section \<open>Preprocessing\<close>

definition calculateNodeSize :: "real \<Rightarrow> real \<Rightarrow> real" where
  "calculateNodeSize degree frequency =
     (let size = 0.8 + (degree + frequency * 0.1) * 0.15 in min size 4.0)"

definition calculateLinkThickness :: "real \<Rightarrow> real" where
  "calculateLinkThickness weight = (let thickness = 0.2 + weight * 0.1 in min thickness 2.0)"

definition ENTITY_COLORS :: "string \<rightharpoonup> string" where
  "ENTITY_COLORS =
     [''ORGANIZATION'' \<mapsto> ''#ff6b6b'', ''EVENT'' \<mapsto> ''#4ecdc4'', ''PERSON'' \<mapsto> ''#45b7d1'',
      ''GEO'' \<mapsto> ''#96ceb4'', ''PROCESS'' \<mapsto> ''#feca57'', ''unnamed'' \<mapsto> ''#95a5a6'']"

text \<open>
  \<open>ENTITY_COLORS[entity.type] || ENTITY_COLORS.unnamed\<close>. \<open>ENTITY_COLORS\<close> is a plain object, so a
  type that is the name of a member of \<open>Object.prototype\<close> reads that inherited member (a
  function or an object, hence truthy) and not the default.
\<close>

definition objectPrototypeKeys :: "string list" where
  "objectPrototypeKeys =
     [''constructor'', ''toString'', ''toLocaleString'', ''valueOf'', ''hasOwnProperty'',
      ''isPrototypeOf'', ''propertyIsEnumerable'', ''__proto__'', ''__defineGetter__'',
      ''__defineSetter__'', ''__lookupGetter__'', ''__lookupSetter__'']"

definition entityColor :: "string \<Rightarrow> jsColor" where
  "entityColor t =
     (case ENTITY_COLORS t of
        Some c \<Rightarrow> ColorString c
      | None \<Rightarrow> if t \<in> set objectPrototypeKeys then InheritedMember t
                else ColorString ''#95a5a6'')"

text \<open>
  \<open>entityToCommunity\<close>: every community writes itself under each of its entity ids, in array
  order, so the last community that lists an entity owns it.
\<close>

definition entityToCommunity :: "community list \<Rightarrow> (string \<rightharpoonup> nat)" where
  "entityToCommunity cs =
     fold (\<lambda>(i, c) m. fold (\<lambda>entityId m'. m'(entityId \<mapsto> i)) (c_entity_ids c) m)
       (enumerate 0 cs) Map.empty"

definition abstractionScore :: "entity \<Rightarrow> real" where
  "abstractionScore e = e_degree e + e_frequency e * 0.5"

text \<open>
  \<open>Math.max(...xs)\<close> and \<open>Math.min(...xs)\<close>: \<open>None\<close> stands for the infinite value that the
  empty argument list yields (\<open>-Infinity\<close> for the maximum, \<open>Infinity\<close> for the minimum).
\<close>

fun mathMax :: "real list \<Rightarrow> real option" where
  "mathMax [] = None"
| "mathMax (v # vs) = Some (fold max vs v)"

fun mathMin :: "real list \<Rightarrow> real option" where
  "mathMin [] = None"
| "mathMin (v # vs) = Some (fold min vs v)"

text \<open>
  The comparison \<open>maxAbstraction > minAbstraction\<close> is false when either side is infinite
  (\<open>-Infinity > Infinity\<close>), which is the last case.
\<close>

definition normalizedAbstraction :: "entity list \<Rightarrow> entity \<Rightarrow> real" where
  "normalizedAbstraction es e =
     (case (mathMax (map abstractionScore es), mathMin (map abstractionScore es)) of
        (Some maxAbstraction, Some minAbstraction) \<Rightarrow>
          if maxAbstraction > minAbstraction
          then (abstractionScore e - minAbstraction) / (maxAbstraction - minAbstraction)
          else 0.5
      | _ \<Rightarrow> 0.5)"

definition radiusOf :: "forceConfig \<Rightarrow> real \<Rightarrow> real" where
  "radiusOf cfg a =
     (let minRadius = spread3D cfg * 0.1; maxRadius = spread3D cfg
      in minRadius + (1 - a) * (maxRadius - minRadius))"

definition finalRadius :: "forceConfig \<Rightarrow> real \<Rightarrow> int \<Rightarrow> real" where
  "finalRadius cfg a communityLevel =
     (let radius = radiusOf cfg a;
          communityOffset = of_int communityLevel * levelSpacing cfg * 0.3
      in radius + communityOffset)"

definition goldenAngle :: real where
  "goldenAngle = pi * (3 - sqrt 5)"

definition spiralPhi :: "nat \<Rightarrow> nat \<Rightarrow> real" where
  "spiralPhi i n = arccos (1 - 2 * (real i / real n))"

definition spiralTheta :: "nat \<Rightarrow> real" where
  "spiralTheta i = goldenAngle * real i"

text \<open>
  The callback of \<open>graphData.entities.map\<close>. \<open>rnd i\<close> is the value \<open>Math.random()\<close> returns for
  the entity at index \<open>i\<close>.
\<close>

definition makeNode :: "forceConfig \<Rightarrow> (nat \<Rightarrow> real) \<Rightarrow> graphData \<Rightarrow> nat \<Rightarrow> entity \<Rightarrow> node3d" where
  "makeNode cfg rnd g i e =
     (let cm = entityToCommunity (communities g) (e_id e);
          communityLevel = (case cm of Some k \<Rightarrow> c_level (communities g ! k) | None \<Rightarrow> 0);
          a = normalizedAbstraction (entities g) e;
          phi = spiralPhi i (length (entities g));
          theta = spiralTheta i;
          randomFactor = 0.9 + rnd i * 0.2;
          adjustedRadius = finalRadius cfg a communityLevel * randomFactor
      in \<lparr>e_id = e_id e, e_human_readable_id = e_human_readable_id e, e_title = e_title e,
          e_type = e_type e, e_description = e_description e,
          e_text_unit_ids = e_text_unit_ids e, e_frequency = e_frequency e,
          e_degree = e_degree e,
          n_x = adjustedRadius * sin phi * cos theta,
          n_y = adjustedRadius * sin phi * sin theta,
          n_z = adjustedRadius * cos phi,
          n_vx = None, n_vy = None, n_vz = None,
          n_community = cm,
          n_communityLevel = communityLevel,
          n_computedSize = calculateNodeSize (e_degree e) (e_frequency e),
          n_computedColor = entityColor (e_type e),
          abstractionLevel = a\<rparr>)"

definition nodeMap :: "node3d list \<Rightarrow> (string \<rightharpoonup> nat)" where
  "nodeMap ns =
     fold (\<lambda>(i, n) m. (m(e_id n \<mapsto> i))(e_title n \<mapsto> i)) (enumerate 0 ns) Map.empty"

definition makeLink :: "(string \<rightharpoonup> nat) \<Rightarrow> relationship \<Rightarrow> link3d option" where
  "makeLink m rel =
     (case (m (r_source rel), m (r_target rel)) of
        (Some sourceNode, Some targetNode) \<Rightarrow>
          Some \<lparr>l_id = r_id rel, l_source = sourceNode, l_target = targetNode,
                l_weight = r_weight rel, l_description = r_description rel\<rparr>
      | _ \<Rightarrow> None)"

definition linkWarning :: "relationship \<Rightarrow> string" where
  "linkWarning rel = ''Relationship link missing node: '' @ r_source rel @ '' -> '' @ r_target rel"

definition preprocessData :: "(nat \<Rightarrow> real) \<Rightarrow> graphData \<Rightarrow> engine \<Rightarrow> engine" where
  "preprocessData rnd g s =
     (let ns = map (\<lambda>(i, e). makeNode (config s) rnd g i e) (enumerate 0 (entities g));
          m = nodeMap ns
      in s\<lparr>comms := communities g,
           nodes := ns,
           links := List.map_filter (makeLink m) (relationships g),
           console := console s @
             map linkWarning (filter (\<lambda>rel. makeLink m rel = None) (relationships g))\<rparr>)"

section \<open>Force setup\<close>

text \<open>\<open>v || d\<close> on a number: the default replaces a zero as well as a missing value.\<close>

definition orDefault :: "real \<Rightarrow> real \<Rightarrow> real" where
  "orDefault v d = (if v = 0 then d else v)"

text \<open>\<open>this.nodes.filter(node => node.community?.id === community.id)\<close>\<close>

definition communityNodes :: "engine \<Rightarrow> community \<Rightarrow> node3d list" where
  "communityNodes s c =
     filter (\<lambda>node. case n_community node of None \<Rightarrow> False
                     | Some k \<Rightarrow> c_id (comms s ! k) = c_id c) (nodes s)"

definition avgAbstraction :: "node3d list \<Rightarrow> real" where
  "avgAbstraction ms =
     foldl (\<lambda>sum node. sum + orDefault (abstractionLevel node) 0.5) 0 ms / real (length ms)"

definition communityCenter :: "engine \<Rightarrow> nat \<Rightarrow> community \<Rightarrow> center option" where
  "communityCenter s communityIndex c =
     (let ms = communityNodes s c in
      if length ms > 0 then
        (let baseRadius = radiusOf (config s) (avgAbstraction ms);
             communityRadius = baseRadius + of_int (c_level c) * levelSpacing (config s) * 0.2;
             phi = spiralPhi communityIndex (length (comms s));
             theta = spiralTheta communityIndex
         in Some \<lparr>ctr_x = communityRadius * sin phi * cos theta,
                  ctr_y = communityRadius * sin phi * sin theta,
                  ctr_z = communityRadius * cos phi,
                  ctr_radius = communityRadius\<rparr>)
      else None)"

definition calculateCommunityCenters :: "engine \<Rightarrow> engine" where
  "calculateCommunityCenters s =
     s\<lparr>communityCenters :=
         fold (\<lambda>(i, c) m. case communityCenter s i c of Some ctr \<Rightarrow> m(c_id c \<mapsto> ctr) | None \<Rightarrow> m)
           (enumerate 0 (comms s)) Map.empty\<rparr>"

text \<open>The target radius the spherical force pulls a node to.\<close>

definition sphericalTargetRadius :: "forceConfig \<Rightarrow> node3d \<Rightarrow> real" where
  "sphericalTargetRadius cfg node =
     (let idealRadius = radiusOf cfg (orDefault (abstractionLevel node) 0.5);
          communityOffset = of_int (n_communityLevel node) * levelSpacing cfg * 0.3
      in idealRadius + communityOffset)"

definition addCommunityForces :: "engine \<Rightarrow> engine" where
  "addCommunityForces s =
     (let s1 = calculateCommunityCenters s
      in s1\<lparr>simulation := (simulation s1)\<lparr>f_community := True\<rparr>\<rparr>)"

definition addSphericalConstraint :: "engine \<Rightarrow> engine" where
  "addSphericalConstraint s = s\<lparr>simulation := (simulation s)\<lparr>f_spherical := True\<rparr>\<rparr>"

text \<open>
  \<open>setupForces\<close> installs fresh built-in forces; the fresh link force has no links until
  \<open>generateLayout\<close> binds them.
\<close>

definition setupForces :: "engine \<Rightarrow> engine" where
  "setupForces s =
     (let s1 = s\<lparr>simulation := (simulation s)
                 \<lparr>f_charge := Some (chargeStrength (config s)),
                  f_linkDistance := Some (linkDistance (config s)),
                  f_linkStrength := Some (linkStrength (config s)),
                  f_linkBound := False,
                  f_center := Some (centerStrength (config s)),
                  f_collision := Some (collisionRadius (config s))\<rparr>\<rparr>
      in addSphericalConstraint (addCommunityForces s1))"

text \<open>
  Modelled from the spec: the simulation of the d3 library is not part of the repository.
  Its energy starts at 1.0 and every tick moves it towards the target (0) by the decay
  factor; the timer runs from the creation of the simulation. Decay 0.03 and floor 0.001
  are set by the constructor in the source.
\<close>

definition constructor :: "forceConfig \<Rightarrow> engine" where
  "constructor cfg =
     \<lparr>config = cfg, nodes = [], links = [], comms = [], communityCenters = Map.empty,
      simulation = \<lparr>alpha = 1, alphaMin = 0.001, alphaDecay = 0.03, alphaTarget = 0,
                    running = True, f_charge = None, f_linkDistance = None,
                    f_linkStrength = None, f_linkBound = False, f_center = None,
                    f_collision = None, f_community = False, f_spherical = False\<rparr>,
      console = []\<rparr>"

definition stop :: "engine \<Rightarrow> engine" where
  "stop s = s\<lparr>simulation := (simulation s)\<lparr>running := False\<rparr>\<rparr>"

definition restart :: "engine \<Rightarrow> engine" where
  "restart s = s\<lparr>simulation := (simulation s)\<lparr>running := True\<rparr>\<rparr>"

section \<open>Community hierarchy resolver\<close>

text \<open>
  Values as \<open>===\<close> sees them: a string and a number are never strictly equal, and \<open>NaN\<close> is
  equal to nothing.
\<close>

datatype jsvalue = JString string | JNumber int | JNaN

fun strictEq :: "jsvalue \<Rightarrow> jsvalue \<Rightarrow> bool" where
  "strictEq (JString a) (JString b) = (a = b)"
| "strictEq (JNumber a) (JNumber b) = (a = b)"
| "strictEq _ _ = False"

definition isWhiteSpace :: "char \<Rightarrow> bool" where
  "isWhiteSpace ch = ((of_char ch :: nat) \<in> {32, 9, 10, 11, 12, 13})"

definition digitValue :: "char \<Rightarrow> nat option" where
  "digitValue ch =
     (let k = (of_char ch :: nat) in
      if 48 \<le> k \<and> k \<le> 57 then Some (k - 48)
      else if 97 \<le> k \<and> k \<le> 122 then Some (k - 87)
      else if 65 \<le> k \<and> k \<le> 90 then Some (k - 55)
      else None)"

fun parseDigits :: "nat \<Rightarrow> string \<Rightarrow> nat list" where
  "parseDigits radix [] = []"
| "parseDigits radix (ch # rest) =
     (case digitValue ch of
        Some d \<Rightarrow> if d < radix then d # parseDigits radix rest else []
      | None \<Rightarrow> [])"

text \<open>
  \<open>parseInt\<close> without a radix: leading white space, a sign, a \<open>0x\<close> prefix for base 16, then
  the longest run of digits; \<open>NaN\<close> when there is none. The result is always a number.
\<close>

definition parseInt :: "string \<Rightarrow> jsvalue" where
  "parseInt str =
     (let s1 = dropWhile isWhiteSpace str;
          negative = (s1 \<noteq> [] \<and> hd s1 = CHR ''-'');
          s2 = (if s1 \<noteq> [] \<and> (hd s1 = CHR ''-'' \<or> hd s1 = CHR ''+'') then tl s1 else s1);
          hex = (take 2 s2 = ''0x'' \<or> take 2 s2 = ''0X'');
          radix = (if hex then 16 else 10);
          ds = parseDigits radix (if hex then drop 2 s2 else s2);
          n = int (foldl (\<lambda>acc d. acc * radix + d) 0 ds)
      in if ds = [] then JNaN else JNumber (if negative then - n else n))"

fun findIndex :: "('a \<Rightarrow> bool) \<Rightarrow> 'a list \<Rightarrow> nat option" where
  "findIndex P [] = None"
| "findIndex P (v # vs) = (if P v then Some 0 else map_option Suc (findIndex P vs))"

text \<open>
  Bounding box of the nodes whose id the community lists; \<open>None\<close> when there is no such
  node, in which case the field is not assigned.
\<close>

definition communityBounds :: "node3d list \<Rightarrow> community \<Rightarrow> bounds option" where
  "communityBounds ns c =
     (let communityNodes = filter (\<lambda>node. e_id node \<in> set (c_entity_ids c)) ns in
      case (mathMin (map n_x communityNodes), mathMax (map n_x communityNodes),
            mathMin (map n_y communityNodes), mathMax (map n_y communityNodes),
            mathMin (map n_z communityNodes), mathMax (map n_z communityNodes)) of
        (Some minX, Some maxX, Some minY, Some maxY, Some minZ, Some maxZ) \<Rightarrow>
          (let padding = 35 in
           Some \<lparr>b_center = ((minX + maxX) / 2, (minY + maxY) / 2, (minZ + maxZ) / 2),
                 b_size = (maxX - minX + padding, maxY - minY + padding, maxZ - minZ + padding),
                 b_padding = padding\<rparr>)
      | _ \<Rightarrow> None)"

text \<open>
  The parent and child lists. The parent id is \<open>parseInt\<close> of the \<open>parent\<close> string and is
  compared by \<open>===\<close> with the \<open>human_readable_id\<close> string of each community; likewise the ids
  of the explicit \<open>children\<close> list.
\<close>

definition precomputeHierarchy :: "community list \<Rightarrow> community \<Rightarrow> hierarchy" where
  "precomputeHierarchy cs c =
     (let parents =
            (case c_parent c of
               None \<Rightarrow> []
             | Some p \<Rightarrow>
                 (let parentId = parseInt p in
                  case findIndex (\<lambda>c'. strictEq (JString (c_human_readable_id c')) parentId) cs of
                    Some k \<Rightarrow> [k]
                  | None \<Rightarrow> []));
          children1 =
            map fst (filter (\<lambda>(j, otherCommunity).
                case c_parent otherCommunity of
                  None \<Rightarrow> False
                | Some p \<Rightarrow> strictEq (parseInt p) (JString (c_human_readable_id c)))
              (enumerate 0 cs));
          children2 =
            (case c_children c of
               None \<Rightarrow> children1
             | Some chs \<Rightarrow>
                 fold (\<lambda>childHumanId acc.
                     (let childId = parseInt childHumanId in
                      case findIndex (\<lambda>c'. strictEq (JString (c_human_readable_id c')) childId) cs of
                        Some k \<Rightarrow>
                          if \<not> list_ex (\<lambda>j. c_id (cs ! j) = c_id (cs ! k)) acc then acc @ [k]
                          else acc
                      | None \<Rightarrow> acc))
                   chs children1)
      in \<lparr>parentCommunities = sort_key (\<lambda>k. c_level (cs ! k)) parents,
          childCommunities = sort_key (\<lambda>k. c_level (cs ! k)) children2\<rparr>)"

text \<open>\<open>colors[level % colors.length]\<close>: the remainder has the sign of the level, and a negative
  index reads nothing.\<close>

definition levelColor :: "int \<Rightarrow> string option" where
  "levelColor lv =
     (let colors = [''#ff6b6b'', ''#4ecdc4'', ''#45b7d1'', ''#96ceb4'', ''#feca57''];
          r = (if 0 \<le> lv then lv mod 5 else - ((- lv) mod 5))
      in if 0 \<le> r then Some (colors ! nat r) else None)"

definition precomputeOne :: "node3d list \<Rightarrow> community list \<Rightarrow> community \<Rightarrow> community" where
  "precomputeOne ns cs c =
     c\<lparr>computedBounds :=
         (case communityBounds ns c of Some b \<Rightarrow> Some b | None \<Rightarrow> computedBounds c),
       computedHierarchy := Some (precomputeHierarchy cs c),
       computedColor := levelColor (c_level c),
       computedOpacity := Some 0.15\<rparr>"

text \<open>
  The \<open>forEach\<close> over the communities updates them in place, one after the other; each
  step reads the array as the earlier steps left it. The lookup map built at the start of
  the source function is never read and is left out.
\<close>

definition precomputeCommunityData :: "engine \<Rightarrow> engine" where
  "precomputeCommunityData s =
     s\<lparr>comms := fold (\<lambda>i cs. cs[i := precomputeOne (nodes s) cs (cs ! i)])
                  [0..<length (comms s)] (comms s)\<rparr>"

section \<open>The simulation run\<close>

text \<open>
  One tick of the d3 simulation: the energy decays, then the forces and the integration
  step rewrite position and velocity of every node. The physics is a parameter: \<open>phys s i\<close>
  is the new position and velocity of node \<open>i\<close> in state \<open>s\<close>.
\<close>

type_synonym motion = "(real \<times> real \<times> real) \<times> (real \<times> real \<times> real)"

definition moveNode :: "motion \<Rightarrow> node3d \<Rightarrow> node3d" where
  "moveNode mv node =
     (case mv of ((px, py, pz), (wx, wy, wz)) \<Rightarrow>
        node\<lparr>n_x := px, n_y := py, n_z := pz, n_vx := Some wx, n_vy := Some wy, n_vz := Some wz\<rparr>)"

definition d3_tick :: "(engine \<Rightarrow> nat \<Rightarrow> motion) \<Rightarrow> engine \<Rightarrow> engine" where
  "d3_tick phys s =
     (let sim = simulation s;
          s1 = s\<lparr>simulation := sim\<lparr>alpha := alpha sim + (alphaTarget sim - alpha sim) * alphaDecay sim\<rparr>\<rparr>
      in s1\<lparr>nodes := map (\<lambda>(i, node). moveNode (phys s1 i) node) (enumerate 0 (nodes s1))\<rparr>)"

record runState =
  rs_engine :: engine
  iterationCount :: nat
  resolved :: "graphLayout option"

definition maxIterations :: nat where
  "maxIterations = 500"

definition layoutOf :: "engine \<Rightarrow> graphLayout" where
  "layoutOf s = \<lparr>gl_nodes = nodes s, gl_links = links s, gl_communities = comms s\<rparr>"

text \<open>The tick handler of \<open>generateLayout\<close>. A promise keeps the first value it is resolved with.\<close>

definition onTick :: "runState \<Rightarrow> runState" where
  "onTick st =
     (let st1 = st\<lparr>iterationCount := iterationCount st + 1\<rparr> in
      if iterationCount st1 \<ge> maxIterations \<or> alpha (simulation (rs_engine st1)) < 0.001 then
        (let s2 = precomputeCommunityData (stop (rs_engine st1)) in
         st1\<lparr>rs_engine := s2,
             resolved := (case resolved st1 of None \<Rightarrow> Some (layoutOf s2) | Some l \<Rightarrow> Some l)\<rparr>)
      else st1)"

text \<open>The timer callback of d3: tick, tick event, then the library's own stop at the floor.\<close>

definition d3_step :: "(engine \<Rightarrow> nat \<Rightarrow> motion) \<Rightarrow> runState \<Rightarrow> runState" where
  "d3_step phys st =
     (let st2 = onTick (st\<lparr>rs_engine := d3_tick phys (rs_engine st)\<rparr>);
          sim = simulation (rs_engine st2)
      in if alpha sim < alphaMin sim then st2\<lparr>rs_engine := stop (rs_engine st2)\<rparr> else st2)"

lemma simulation_precompute [simp]: "simulation (precomputeCommunityData s) = simulation s"
  by (simp add: precomputeCommunityData_def)

lemma d3_step_running:
  assumes "running (simulation (rs_engine (d3_step phys st)))"
  shows "iterationCount (d3_step phys st) = Suc (iterationCount st) \<and> Suc (iterationCount st) < maxIterations"
  using assms
  by (auto simp: d3_step_def onTick_def Let_def stop_def split: if_splits)

function run :: "(engine \<Rightarrow> nat \<Rightarrow> motion) \<Rightarrow> runState \<Rightarrow> runState" where
  "run phys st = (if running (simulation (rs_engine st)) then run phys (d3_step phys st) else st)"
  by pat_completeness auto
termination
  apply (relation "measure (\<lambda>(phys, st). if running (simulation (rs_engine st))
                                       then Suc (maxIterations - iterationCount st) else 0)")
   apply simp
  apply (auto dest: d3_step_running)
  done

declare run.simps [simp del]

text \<open>
  \<open>generateLayout\<close>: preprocessing, force setup, registration of the nodes and links with
  the simulation, restart; then the timer drives the ticks until the simulation stops.
  The promise is the field \<open>resolved\<close> of the final state.
\<close>

definition generateLayout ::
  "(engine \<Rightarrow> nat \<Rightarrow> motion) \<Rightarrow> (nat \<Rightarrow> real) \<Rightarrow> graphData \<Rightarrow> engine \<Rightarrow> runState" where
  "generateLayout phys rnd g s =
     (let s1 = setupForces (preprocessData rnd g s);
          s2 = s1\<lparr>simulation := (simulation s1)\<lparr>f_linkBound := True\<rparr>\<rparr>
      in run phys \<lparr>rs_engine = restart s2, iterationCount = 0, resolved = None\<rparr>)"

section \<open>Reconfiguration\<close>

record partialConfig =
  p_chargeStrength :: "real option"
  p_linkDistance :: "real option"
  p_linkStrength :: "real option"
  p_collisionRadius :: "real option"
  p_communityStrength :: "real option"
  p_centerStrength :: "real option"
  p_spread3D :: "real option"
  p_levelSpacing :: "real option"
  p_sphericalConstraint :: "real option"

definition orElse :: "'a option \<Rightarrow> 'a \<Rightarrow> 'a" where
  "orElse v d = (case v of Some w \<Rightarrow> w | None \<Rightarrow> d)"

text \<open>
  \<open>{ ...this.config, ...newConfig }\<close>. A field of the partial configuration is \<open>None\<close> when
  the key is absent. A key that is present with the value \<open>undefined\<close> is outside the model:
  the spread would store \<open>undefined\<close> in the configuration, which is no number of the exact
  reals used here; \<open>updateIndividualForces\<close> treats such a key as absent.
\<close>

definition mergeConfig :: "forceConfig \<Rightarrow> partialConfig \<Rightarrow> forceConfig" where
  "mergeConfig cfg ch =
     \<lparr>chargeStrength = orElse (p_chargeStrength ch) (chargeStrength cfg),
      linkDistance = orElse (p_linkDistance ch) (linkDistance cfg),
      linkStrength = orElse (p_linkStrength ch) (linkStrength cfg),
      collisionRadius = orElse (p_collisionRadius ch) (collisionRadius cfg),
      communityStrength = orElse (p_communityStrength ch) (communityStrength cfg),
      centerStrength = orElse (p_centerStrength ch) (centerStrength cfg),
      spread3D = orElse (p_spread3D ch) (spread3D cfg),
      levelSpacing = orElse (p_levelSpacing ch) (levelSpacing cfg),
      sphericalConstraint = orElse (p_sphericalConstraint ch) (sphericalConstraint cfg)\<rparr>"

definition updateCommunityForce :: "engine \<Rightarrow> engine" where
  "updateCommunityForce s =
     (let s1 = calculateCommunityCenters s
      in s1\<lparr>simulation := (simulation s1)\<lparr>f_community := True\<rparr>\<rparr>)"

definition updateSphericalForce :: "engine \<Rightarrow> engine" where
  "updateSphericalForce s = s\<lparr>simulation := (simulation s)\<lparr>f_spherical := True\<rparr>\<rparr>"

text \<open>The five blocks of \<open>updateIndividualForces\<close>, in the order of the source.\<close>

definition forceUpdates :: "partialConfig \<Rightarrow> (engine \<Rightarrow> engine) list" where
  "forceUpdates ch =
     [\<lambda>s. if p_chargeStrength ch \<noteq> None
           then s\<lparr>simulation := (simulation s)\<lparr>f_charge := Some (chargeStrength (config s))\<rparr>\<rparr>
           else s,
      \<lambda>s. if p_linkDistance ch \<noteq> None \<or> p_linkStrength ch \<noteq> None
           then (let s1 = (if p_linkDistance ch \<noteq> None
                           then s\<lparr>simulation := (simulation s)\<lparr>f_linkDistance := Some (linkDistance (config s))\<rparr>\<rparr>
                           else s)
                 in if p_linkStrength ch \<noteq> None
                    then s1\<lparr>simulation := (simulation s1)\<lparr>f_linkStrength := Some (linkStrength (config s1))\<rparr>\<rparr>
                    else s1)
           else s,
      \<lambda>s. if p_centerStrength ch \<noteq> None
           then s\<lparr>simulation := (simulation s)\<lparr>f_center := Some (centerStrength (config s))\<rparr>\<rparr>
           else s,
      \<lambda>s. if p_collisionRadius ch \<noteq> None
           then s\<lparr>simulation := (simulation s)\<lparr>f_collision := Some (collisionRadius (config s))\<rparr>\<rparr>
           else s,
      \<lambda>s. if p_communityStrength ch \<noteq> None \<or> p_spread3D ch \<noteq> None \<or>
              p_levelSpacing ch \<noteq> None \<or> p_sphericalConstraint ch \<noteq> None
           then updateSphericalForce (updateCommunityForce s)
           else s]"

text \<open>
  The source raises nothing itself; an exception can only come out of a call into the
  library. \<open>failAt = Some k\<close> is a run in which the block number \<open>k\<close> (of five, from 0)
  throws, after the blocks before it took effect; the state reached is the payload of the
  error.
\<close>

definition updateIndividualForces :: "partialConfig \<Rightarrow> nat option \<Rightarrow> engine \<Rightarrow> engine + engine" where
  "updateIndividualForces ch failAt s =
     (case failAt of
        None \<Rightarrow> Inr (fold (\<lambda>f t. f t) (forceUpdates ch) s)
      | Some k \<Rightarrow>
          if k < length (forceUpdates ch)
          then Inl (fold (\<lambda>f t. f t) (take k (forceUpdates ch)) s)
          else Inr (fold (\<lambda>f t. f t) (forceUpdates ch) s))"

definition setAlpha :: "real \<Rightarrow> engine \<Rightarrow> engine" where
  "setAlpha a s = s\<lparr>simulation := (simulation s)\<lparr>alpha := a\<rparr>\<rparr>"

definition updateConfig :: "partialConfig \<Rightarrow> nat option \<Rightarrow> engine \<Rightarrow> engine" where
  "updateConfig newConfig failAt s =
     (let s1 = s\<lparr>config := mergeConfig (config s) newConfig\<rparr> in
      if length (nodes s1) = 0 then s1
      else
        (case updateIndividualForces newConfig failAt s1 of
           Inr s2 \<Rightarrow> restart (setAlpha 0.1 s2)
         | Inl s2 \<Rightarrow>
             (let s3 = s2\<lparr>console := console s2 @
                          [''Force config update failed, falling back to full setup:'']\<rparr>
              in restart (setAlpha 0.05 (setupForces s3)))))"

section \<open>Subtree selector\<close>



type_synonym childMap = "(string \<times> community list) list"






definition stored :: "childMap \<Rightarrow> community set" where
  "stored cm = (\<Union>p \<in> set cm. set (snd p))"

definition universe :: "community list \<Rightarrow> childMap \<Rightarrow> community list \<Rightarrow> string set" where
  "universe allCommunities cm queue = c_id ` (set allCommunities \<union> set queue \<union> stored cm)"

lemma finite_universe [simp]: "finite (universe a cm q)"
  by (simp add: universe_def stored_def)











section \<open>Links and nodes of the layout\<close>

definition names :: "'a entity_scheme \<Rightarrow> string \<Rightarrow> bool" where
  "names n k = (e_id n = k \<or> e_title n = k)"

lemma fold_nodeMap_Some:
  "fold (\<lambda>(i, n) m. (m(e_id n \<mapsto> i))(e_title n \<mapsto> i)) (enumerate off ns) m k = Some i \<Longrightarrow>
   m k = Some i \<or> (off \<le> i \<and> i < off + length ns \<and> names (ns ! (i - off)) k)"
proof (induction ns arbitrary: off m)
  case Nil
  then show ?case by simp
next
  case (Cons n ns)
  from Cons.prems
  have "fold (\<lambda>(i, n) m. (m(e_id n \<mapsto> i))(e_title n \<mapsto> i)) (enumerate (Suc off) ns)
          ((m(e_id n \<mapsto> off))(e_title n \<mapsto> off)) k = Some i"
    by (simp only: enumerate_simps fold_simps prod.case)
  from Cons.IH[OF this] show ?case
    by (auto simp: names_def nth_Cons' split: if_splits)
qed

lemma fold_nodeMap_None:
  "(fold (\<lambda>(i, n) m. (m(e_id n \<mapsto> i))(e_title n \<mapsto> i)) (enumerate off ns) m k = None) =
   (m k = None \<and> (\<forall>n \<in> set ns. \<not> names n k))"
proof (induction ns arbitrary: off m)
  case Nil
  then show ?case by simp
next
  case (Cons n ns)
  define m' where "m' = (m(e_id n \<mapsto> off))(e_title n \<mapsto> off)"
  have eq: "fold (\<lambda>(i, n) m. (m(e_id n \<mapsto> i))(e_title n \<mapsto> i)) (enumerate off (n # ns)) m k =
        fold (\<lambda>(i, n) m. (m(e_id n \<mapsto> i))(e_title n \<mapsto> i)) (enumerate (Suc off) ns) m' k"
    unfolding m'_def by (simp only: enumerate_simps fold_simps prod.case)
  have m'k: "(m' k = None) = (m k = None \<and> \<not> names n k)"
    by (auto simp: names_def m'_def)
  show ?case
    unfolding eq Cons.IH[of "Suc off" m'] m'k by auto
qed

lemma nodeMap_Some: "nodeMap ns k = Some i \<Longrightarrow> i < length ns \<and> names (ns ! i) k"
  using fold_nodeMap_Some[of 0 ns Map.empty k i] by (simp add: nodeMap_def)

lemma nodeMap_None: "(nodeMap ns k = None) = (\<forall>n \<in> set ns. \<not> names n k)"
  using fold_nodeMap_None[of 0 ns Map.empty k] by (simp add: nodeMap_def)


definition resolvable :: "graphData \<Rightarrow> string \<Rightarrow> bool" where
  "resolvable g k = (\<exists>e \<in> set (entities g). names e k)"

lemma run_preserves:
  assumes "\<And>st. P st \<Longrightarrow> running (simulation (rs_engine st)) \<Longrightarrow> P (d3_step phys st)"
    and "P st"
  shows "P (run phys st)"
  using assms
proof (induction phys st rule: run.induct)
  case (1 phys st)
  show ?case
  proof (cases "running (simulation (rs_engine st))")
    case True
    have a: "P (d3_step phys st)"
      by (rule "1.prems"(1)[OF "1.prems"(2) True])
    have b: "P (run phys (d3_step phys st))"
      by (rule "1.IH"[OF True "1.prems"(1) a])
    have "run phys st = run phys (d3_step phys st)"
      using True by (subst run.simps) simp
    then show ?thesis using b by simp
  next
    case False
    then have "run phys st = st"
      by (subst run.simps) simp
    then show ?thesis using "1.prems"(2) by simp
  qed
qed

lemma nodes_precompute [simp]: "nodes (precomputeCommunityData s) = nodes s"
  and links_precompute [simp]: "links (precomputeCommunityData s) = links s"
  and console_precompute [simp]: "console (precomputeCommunityData s) = console s"
  by (simp_all add: precomputeCommunityData_def)

lemma moveNode_entity [simp]:
  "e_id (moveNode mv n) = e_id n" "e_title (moveNode mv n) = e_title n"
  by (cases mv; auto simp: moveNode_def)+

lemma d3_tick_frame:
  "links (d3_tick phys s) = links s" "console (d3_tick phys s) = console s"
  "map e_id (nodes (d3_tick phys s)) = map e_id (nodes s)"
  "map e_title (nodes (d3_tick phys s)) = map e_title (nodes s)"
  "comms (d3_tick phys s) = comms s"
  by (auto simp: d3_tick_def Let_def intro!: nth_equalityI simp: nth_enumerate_eq)

definition frame :: "engine \<Rightarrow> engine \<Rightarrow> bool" where
  "frame s t = (links t = links s \<and> console t = console s \<and>
     map e_id (nodes t) = map e_id (nodes s) \<and> map e_title (nodes t) = map e_title (nodes s))"

lemma d3_step_frame: "frame s (rs_engine st) \<Longrightarrow> frame s (rs_engine (d3_step phys st))"
  by (auto simp: frame_def d3_step_def onTick_def Let_def stop_def d3_tick_frame)

lemma run_frame: "frame s (rs_engine st) \<Longrightarrow> frame s (rs_engine (run phys st))"
  by (rule run_preserves[where P="\<lambda>st. frame s (rs_engine st)"]) (auto intro: d3_step_frame)

definition settled :: "runState \<Rightarrow> bool" where
  "settled st = (case resolved st of None \<Rightarrow> True
                 | Some L \<Rightarrow> L = layoutOf (rs_engine st) \<and> \<not> running (simulation (rs_engine st)))"

lemma layoutOf_stop [simp]: "layoutOf (stop s) = layoutOf s"
  by (simp add: layoutOf_def stop_def)

lemma running_stop [simp]: "\<not> running (simulation (stop s))"
  by (simp add: stop_def)

lemma d3_step_settled:
  "settled st \<Longrightarrow> running (simulation (rs_engine st)) \<Longrightarrow> settled (d3_step phys st)"
  by (auto simp: settled_def d3_step_def onTick_def Let_def split: option.splits)

lemma run_settled: "settled st \<Longrightarrow> settled (run phys st)"
  by (rule run_preserves[where P=settled]) (auto intro: d3_step_settled)


lemma setupForces_frame [simp]:
  "nodes (setupForces s) = nodes s" "links (setupForces s) = links s"
  "console (setupForces s) = console s" "comms (setupForces s) = comms s"
  "config (setupForces s) = config s"
  by (simp_all add: setupForces_def addSphericalConstraint_def addCommunityForces_def
      calculateCommunityCenters_def Let_def)

lemma makeNode_entity [simp]:
  "e_id (makeNode cfg rnd g i e) = e_id e" "e_title (makeNode cfg rnd g i e) = e_title e"
  by (simp_all add: makeNode_def Let_def)

lemma preprocess_ids:
  "map e_id (nodes (preprocessData rnd g s)) = map e_id (entities g)"
  "map e_title (nodes (preprocessData rnd g s)) = map e_title (entities g)"
  by (auto simp: preprocessData_def Let_def intro!: nth_equalityI simp: nth_enumerate_eq)

lemma names_cong:
  assumes "map e_id ns = map e_id ms" "map e_title ns = map e_title ms" "i < length ns"
  shows "names (ns ! i) k = names (ms ! i) k"
proof -
  have "length ms = length ns" using assms(1) by (metis length_map)
  then have "e_id (ns ! i) = e_id (ms ! i)" "e_title (ns ! i) = e_title (ms ! i)"
    using assms by (metis nth_map)+
  then show ?thesis by (simp add: names_def)
qed

lemma names_set_cong:
  assumes "map e_id ns = map e_id ms" "map e_title ns = map e_title ms"
  shows "(\<exists>n \<in> set ns. names n k) = (\<exists>m \<in> set ms. names m k)"
proof -
  have len: "length ms = length ns" using assms(1) by (metis length_map)
  have "(\<exists>n \<in> set ns. names n k) = (\<exists>i < length ns. names (ns ! i) k)"
    by (metis in_set_conv_nth)
  also have "\<dots> = (\<exists>i < length ns. names (ms ! i) k)"
    using names_cong[OF assms] by blast
  also have "\<dots> = (\<exists>m \<in> set ms. names m k)"
    using len by (metis in_set_conv_nth)
  finally show ?thesis .
qed

lemma makeLink_None: "(makeLink m rel = None) = (m (r_source rel) = None \<or> m (r_target rel) = None)"
  by (auto simp: makeLink_def split: option.splits)

lemma makeLink_Some:
  "makeLink m rel = Some l \<Longrightarrow>
   m (r_source rel) = Some (l_source l) \<and> m (r_target rel) = Some (l_target l) \<and> l_id l = r_id rel"
  by (auto simp: makeLink_def split: option.splits)

lemma map_filter_all2:
  assumes "\<And>v w. v \<in> set vs \<Longrightarrow> f v = Some w \<Longrightarrow> P w v"
  shows "list_all2 P (List.map_filter f vs) (filter (\<lambda>v. f v \<noteq> None) vs)"
  using assms by (induction vs) (auto simp: List.map_filter_simps split: option.splits)

lemma preprocess_resolvable:
  "(nodeMap (nodes (preprocessData rnd g s)) k \<noteq> None) = resolvable g k"
  unfolding nodeMap_None resolvable_def
  using names_set_cong[OF preprocess_ids, of rnd g s k] by simp

text \<open>
  Claim C1. In the layout that \<open>generateLayout\<close> resolves with, both endpoints of every link
  are references into the node array of that layout; the links are, in order, those
  relationships whose source and target both name a node (by id or by title), each link
  pointing at nodes so named; every other relationship yields no link and one warning on
  the console, and the run goes on.
\<close>

theorem generateLayout_links_resolved:
  assumes "resolved (generateLayout phys rnd g s) = Some L"
  shows "(\<forall>l \<in> set (gl_links L). l_source l < length (gl_nodes L) \<and> l_target l < length (gl_nodes L))
       \<and> list_all2 (\<lambda>l rel. l_id l = r_id rel \<and> names (gl_nodes L ! l_source l) (r_source rel)
                       \<and> names (gl_nodes L ! l_target l) (r_target rel))
           (gl_links L)
           (filter (\<lambda>rel. resolvable g (r_source rel) \<and> resolvable g (r_target rel)) (relationships g))
       \<and> console (rs_engine (generateLayout phys rnd g s)) =
           console s @ map linkWarning
             (filter (\<lambda>rel. \<not> (resolvable g (r_source rel) \<and> resolvable g (r_target rel)))
                (relationships g))"
proof -
  define s1 where "s1 = preprocessData rnd g s"
  define ns where "ns = nodes s1"
  define e0 where "e0 = restart ((setupForces s1)\<lparr>simulation := (simulation (setupForces s1))\<lparr>f_linkBound := True\<rparr>\<rparr>)"
  define fin where "fin = generateLayout phys rnd g s"
  have fin: "fin = run phys \<lparr>rs_engine = e0, iterationCount = 0, resolved = None\<rparr>"
    by (simp add: fin_def generateLayout_def Let_def e0_def s1_def)
  have e0: "nodes e0 = ns" "links e0 = links s1" "console e0 = console s1"
    by (simp_all add: e0_def restart_def ns_def)
  have "frame e0 (rs_engine fin)"
    unfolding fin by (rule run_frame) (simp add: frame_def)
  then have fr: "links (rs_engine fin) = links s1" "console (rs_engine fin) = console s1"
    "map e_id (nodes (rs_engine fin)) = map e_id ns"
    "map e_title (nodes (rs_engine fin)) = map e_title ns"
    by (simp_all add: frame_def e0)
  have "settled fin"
    unfolding fin by (rule run_settled) (simp add: settled_def)
  then have L: "L = layoutOf (rs_engine fin)"
    using assms by (simp add: settled_def fin_def)
  have Ln: "gl_nodes L = nodes (rs_engine fin)" and Ll: "gl_links L = links s1"
    by (simp_all add: L layoutOf_def fr)
  have len: "length (gl_nodes L) = length ns"
    using fr(3) Ln by (metis length_map)
  have links1: "links s1 = List.map_filter (makeLink (nodeMap ns)) (relationships g)"
    by (simp add: s1_def ns_def preprocessData_def Let_def)
  have res: "\<And>k. (nodeMap ns k \<noteq> None) = resolvable g k"
    unfolding ns_def s1_def by (rule preprocess_resolvable)
  have none: "\<And>rel. (makeLink (nodeMap ns) rel \<noteq> None) =
      (resolvable g (r_source rel) \<and> resolvable g (r_target rel))"
    using res by (simp add: makeLink_None)
  have ends: "l_source l < length (gl_nodes L) \<and> l_target l < length (gl_nodes L) \<and> l_id l = r_id rel \<and>
      names (gl_nodes L ! l_source l) (r_source rel) \<and> names (gl_nodes L ! l_target l) (r_target rel)"
    if "makeLink (nodeMap ns) rel = Some l" for l rel
  proof -
    from makeLink_Some[OF that]
    have a: "nodeMap ns (r_source rel) = Some (l_source l)"
      and b: "nodeMap ns (r_target rel) = Some (l_target l)" and c: "l_id l = r_id rel"
      by simp_all
    from nodeMap_Some[OF a] nodeMap_Some[OF b]
    have d: "l_source l < length ns" "names (ns ! l_source l) (r_source rel)"
      "l_target l < length ns" "names (ns ! l_target l) (r_target rel)"
      by simp_all
    have "names (gl_nodes L ! l_source l) (r_source rel) = names (ns ! l_source l) (r_source rel)"
      unfolding Ln using names_cong[OF fr(3) fr(4)] d(1) len Ln by simp
    moreover have "names (gl_nodes L ! l_target l) (r_target rel) = names (ns ! l_target l) (r_target rel)"
      unfolding Ln using names_cong[OF fr(3) fr(4)] d(3) len Ln by simp
    ultimately show ?thesis using c d len by simp
  qed
  have p1: "\<forall>l \<in> set (gl_links L). l_source l < length (gl_nodes L) \<and> l_target l < length (gl_nodes L)"
    unfolding Ll links1 using ends by (auto simp: List.map_filter_def)
  have "list_all2 (\<lambda>l rel. l_id l = r_id rel \<and> names (gl_nodes L ! l_source l) (r_source rel)
                       \<and> names (gl_nodes L ! l_target l) (r_target rel))
           (List.map_filter (makeLink (nodeMap ns)) (relationships g))
           (filter (\<lambda>rel. makeLink (nodeMap ns) rel \<noteq> None) (relationships g))"
    by (rule map_filter_all2) (use ends in blast)
  then have p2: "list_all2 (\<lambda>l rel. l_id l = r_id rel \<and> names (gl_nodes L ! l_source l) (r_source rel)
                       \<and> names (gl_nodes L ! l_target l) (r_target rel))
           (gl_links L)
           (filter (\<lambda>rel. resolvable g (r_source rel) \<and> resolvable g (r_target rel)) (relationships g))"
    unfolding Ll links1 none .
  have "console s1 = console s @ map linkWarning
             (filter (\<lambda>rel. makeLink (nodeMap ns) rel = None) (relationships g))"
    by (simp add: s1_def ns_def preprocessData_def Let_def)
  also have "(\<lambda>rel. makeLink (nodeMap ns) rel = None) =
       (\<lambda>rel. \<not> (resolvable g (r_source rel) \<and> resolvable g (r_target rel)))"
  proof
    fix rel
    show "(makeLink (nodeMap ns) rel = None) =
          (\<not> (resolvable g (r_source rel) \<and> resolvable g (r_target rel)))"
      using none[of rel] by blast
  qed
  finally have p3: "console (rs_engine (generateLayout phys rnd g s)) =
           console s @ map linkWarning
             (filter (\<lambda>rel. \<not> (resolvable g (r_source rel) \<and> resolvable g (r_target rel)))
                (relationships g))"
    using fr(2) by (simp add: fin_def)
  from p1 p2 p3 show ?thesis by blast
qed

section \<open>Termination of the run\<close>

definition simOk :: "engine \<Rightarrow> bool" where
  "simOk s = (alphaMin (simulation s) = 0.001 \<and> alphaDecay (simulation s) = 0.03 \<and>
              alphaTarget (simulation s) = 0)"

lemma decay_step: "(a::real) + (0 - a) * 0.03 = a * 0.97"
  by (simp add: algebra_simps)

lemma d3_tick_simulation:
  "simulation (d3_tick phys s) =
     (simulation s)\<lparr>alpha := alpha (simulation s) +
        (alphaTarget (simulation s) - alpha (simulation s)) * alphaDecay (simulation s)\<rparr>"
  by (simp add: d3_tick_def Let_def)

lemma d3_tick_sim:
  assumes "simOk s"
  shows "simulation (d3_tick phys s) = (simulation s)\<lparr>alpha := alpha (simulation s) * 0.97\<rparr>"
proof -
  from assms have d: "alphaDecay (simulation s) = 0.03" and t: "alphaTarget (simulation s) = 0"
    by (simp_all add: simOk_def)
  show ?thesis
    unfolding d3_tick_simulation d t decay_step ..
qed


definition fires :: "runState \<Rightarrow> bool" where
  "fires st = (maxIterations \<le> Suc (iterationCount st) \<or> alpha (simulation (rs_engine st)) < 0.001)"

lemma onTick_fires:
  "fires st \<Longrightarrow> onTick st =
     st\<lparr>iterationCount := Suc (iterationCount st),
        rs_engine := precomputeCommunityData (stop (rs_engine st)),
        resolved := (case resolved st of None \<Rightarrow>
                       Some (layoutOf (precomputeCommunityData (stop (rs_engine st))))
                     | Some l \<Rightarrow> Some l)\<rparr>"
  by (simp add: onTick_def fires_def Let_def)

lemma onTick_skips:
  "\<not> fires st \<Longrightarrow> onTick st = st\<lparr>iterationCount := Suc (iterationCount st)\<rparr>"
  by (simp add: onTick_def fires_def Let_def)

lemma d3_step_count: "iterationCount (d3_step phys st) = Suc (iterationCount st)"
  by (simp add: d3_step_def onTick_def Let_def)

lemma simOk_stop [simp]: "simOk (stop s) = simOk s"
  by (simp add: simOk_def stop_def)

lemma simOk_precompute [simp]: "simOk (precomputeCommunityData s) = simOk s"
  by (simp add: simOk_def)

lemma alpha_stop [simp]: "alpha (simulation (stop s)) = alpha (simulation s)"
  by (simp add: stop_def)

lemma layoutOf_stop_precompute [simp]:
  "layoutOf (stop (precomputeCommunityData s)) = layoutOf (precomputeCommunityData s)"
  by simp

lemma d3_step_fires:
  assumes ok: "simOk (rs_engine st)" and un: "resolved st = None"
    and c: "maxIterations \<le> Suc (iterationCount st) \<or> alpha (simulation (rs_engine st)) * 0.97 < 0.001"
  shows "\<not> running (simulation (rs_engine (d3_step phys st)))"
    and "resolved (d3_step phys st) = Some (layoutOf (rs_engine (d3_step phys st)))"
proof -
  define st1 where "st1 = st\<lparr>rs_engine := d3_tick phys (rs_engine st)\<rparr>"
  have un1: "resolved st1 = None" "iterationCount st1 = iterationCount st"
    "rs_engine st1 = d3_tick phys (rs_engine st)"
    using un by (simp_all add: st1_def)
  have "fires st1"
    using c by (simp add: fires_def un1 d3_tick_sim[OF ok])
  note t = onTick_fires[OF this]
  have step: "d3_step phys st =
     (if alpha (simulation (rs_engine (onTick st1))) < alphaMin (simulation (rs_engine (onTick st1)))
      then (onTick st1)\<lparr>rs_engine := stop (rs_engine (onTick st1))\<rparr> else onTick st1)"
    by (simp add: d3_step_def st1_def Let_def)
  have r: "rs_engine (onTick st1) = precomputeCommunityData (stop (rs_engine st1))"
    and v: "resolved (onTick st1) = Some (layoutOf (precomputeCommunityData (stop (rs_engine st1))))"
    using un1 by (simp_all add: t)
  show "\<not> running (simulation (rs_engine (d3_step phys st)))"
    unfolding step by (simp add: r)
  show "resolved (d3_step phys st) = Some (layoutOf (rs_engine (d3_step phys st)))"
    unfolding step by (simp add: r v)
qed

lemma d3_step_continues:
  assumes ok: "simOk (rs_engine st)" and un: "resolved st = None"
    and rn: "running (simulation (rs_engine st))"
    and c: "\<not> (maxIterations \<le> Suc (iterationCount st) \<or> alpha (simulation (rs_engine st)) * 0.97 < 0.001)"
  shows "running (simulation (rs_engine (d3_step phys st)))"
    and "resolved (d3_step phys st) = None"
proof -
  define st1 where "st1 = st\<lparr>rs_engine := d3_tick phys (rs_engine st)\<rparr>"
  have un1: "resolved st1 = None" "iterationCount st1 = iterationCount st"
    "rs_engine st1 = d3_tick phys (rs_engine st)"
    using un by (simp_all add: st1_def)
  have nf: "\<not> fires st1"
    using c by (simp add: fires_def un1 d3_tick_sim[OF ok])
  note t = onTick_skips[OF this]
  have step: "d3_step phys st =
     (if alpha (simulation (rs_engine (onTick st1))) < alphaMin (simulation (rs_engine (onTick st1)))
      then (onTick st1)\<lparr>rs_engine := stop (rs_engine (onTick st1))\<rparr> else onTick st1)"
    by (simp add: d3_step_def st1_def Let_def)
  from ok have m: "alphaMin (simulation (rs_engine st)) = 0.001"
    by (simp add: simOk_def)
  have a: "\<not> alpha (simulation (rs_engine (onTick st1))) < alphaMin (simulation (rs_engine (onTick st1)))"
    using nf by (simp add: t fires_def un1 d3_tick_sim[OF ok] m)
  have d3: "d3_step phys st = onTick st1"
    unfolding step using a by simp
  show "running (simulation (rs_engine (d3_step phys st)))"
    unfolding d3 using rn by (simp add: t un1 d3_tick_sim[OF ok])
  show "resolved (d3_step phys st) = None"
    unfolding d3 by (simp add: t un1)
qed

lemma d3_step_ok:
  assumes ok: "simOk (rs_engine st)"
  shows "simOk (rs_engine (d3_step phys st))"
    and "alpha (simulation (rs_engine (d3_step phys st))) = alpha (simulation (rs_engine st)) * 0.97"
proof -
  have t: "simOk (d3_tick phys (rs_engine st))"
    using ok by (simp add: simOk_def d3_tick_sim[OF ok])
  have o: "simOk (rs_engine (onTick st')) = simOk (rs_engine st')"
    "alpha (simulation (rs_engine (onTick st'))) = alpha (simulation (rs_engine st'))" for st'
    by (cases "fires st'"; simp add: onTick_fires onTick_skips)+
  show "simOk (rs_engine (d3_step phys st))"
    using t by (simp add: d3_step_def Let_def o)
  show "alpha (simulation (rs_engine (d3_step phys st))) = alpha (simulation (rs_engine st)) * 0.97"
    by (simp add: d3_step_def Let_def o d3_tick_sim[OF ok])
qed

definition firstStop :: "real \<Rightarrow> nat \<Rightarrow> nat \<Rightarrow> bool" where
  "firstStop a c n =
     (1 \<le> n \<and> (maxIterations \<le> c + n \<or> a * 0.97 ^ n < 0.001) \<and>
      (\<forall>k. 1 \<le> k \<and> k < n \<longrightarrow> c + k < maxIterations \<and> 0.001 \<le> a * 0.97 ^ k))"

lemma firstStop_one:
  "maxIterations \<le> Suc c \<or> a * 0.97 < 0.001 \<Longrightarrow> firstStop a c 1"
  by (simp add: firstStop_def)

lemma firstStop_Suc:
  assumes "\<not> (maxIterations \<le> Suc c \<or> a * 0.97 < 0.001)" and "firstStop (a * 0.97) (Suc c) n"
  shows "firstStop a c (Suc n)"
  unfolding firstStop_def
proof (intro conjI allI impI)
  show "1 \<le> Suc n" by simp
  show "maxIterations \<le> c + Suc n \<or> a * 0.97 ^ Suc n < 0.001"
    using assms(2) by (simp add: firstStop_def mult.assoc)
next
  fix k assume k: "1 \<le> k \<and> k < Suc n"
  then obtain j where j: "k = Suc j" "j < n"
    by (cases k) auto
  show "c + k < maxIterations"
  proof (cases "j = 0")
    case True
    then show ?thesis using assms(1) j by simp
  next
    case False
    then have "1 \<le> j \<and> j < n" using j by auto
    then have "Suc c + j < maxIterations"
      using assms(2) unfolding firstStop_def by blast
    then show ?thesis using j by simp
  qed
  show "0.001 \<le> a * 0.97 ^ k"
  proof (cases "j = 0")
    case True
    then show ?thesis using assms(1) j by simp
  next
    case False
    then have "1 \<le> j \<and> j < n" using j by auto
    then have "0.001 \<le> (a * 0.97) * 0.97 ^ j"
      using assms(2) unfolding firstStop_def by blast
    then show ?thesis unfolding j(1) power_Suc mult.assoc .
  qed
qed

lemma run_stopped: "\<not> running (simulation (rs_engine st)) \<Longrightarrow> run phys st = st"
  by (subst run.simps) simp

lemma run_step: "running (simulation (rs_engine st)) \<Longrightarrow> run phys st = run phys (d3_step phys st)"
  by (subst run.simps) simp

lemma run_resolves:
  assumes "simOk (rs_engine st)" "resolved st = None" "running (simulation (rs_engine st))"
  shows "\<exists>n. firstStop (alpha (simulation (rs_engine st))) (iterationCount st) n \<and>
             iterationCount (run phys st) = iterationCount st + n \<and>
             resolved (run phys st) = Some (layoutOf (rs_engine (run phys st))) \<and>
             \<not> running (simulation (rs_engine (run phys st)))"
  using assms
proof (induction phys st rule: run.induct)
  case (1 phys st)
  note ok = "1.prems"(1) and un = "1.prems"(2) and rn = "1.prems"(3)
  let ?c = "maxIterations \<le> Suc (iterationCount st) \<or> alpha (simulation (rs_engine st)) * 0.97 < 0.001"
  show ?case
  proof (cases ?c)
    case True
    from d3_step_fires[OF ok un True, of phys]
    have a: "\<not> running (simulation (rs_engine (d3_step phys st)))"
      and b: "resolved (d3_step phys st) = Some (layoutOf (rs_engine (d3_step phys st)))"
      by simp_all
    have r: "run phys st = d3_step phys st"
      using run_step[OF rn] run_stopped[OF a] by simp
    show ?thesis
      using firstStop_one[OF True] a b by (intro exI[of _ 1]) (simp add: r d3_step_count)
  next
    case False
    from d3_step_continues[OF ok un rn False, of phys]
    have a: "running (simulation (rs_engine (d3_step phys st)))"
      and b: "resolved (d3_step phys st) = None"
      by simp_all
    from d3_step_ok[OF ok, of phys]
    have ok': "simOk (rs_engine (d3_step phys st))"
      and al: "alpha (simulation (rs_engine (d3_step phys st))) = alpha (simulation (rs_engine st)) * 0.97"
      by simp_all
    from "1.IH"[OF rn ok' b a] obtain n where
      n: "firstStop (alpha (simulation (rs_engine st)) * 0.97) (Suc (iterationCount st)) n"
      and cnt: "iterationCount (run phys (d3_step phys st)) = Suc (iterationCount st) + n"
      and res: "resolved (run phys (d3_step phys st)) = Some (layoutOf (rs_engine (run phys (d3_step phys st))))"
      and nr: "\<not> running (simulation (rs_engine (run phys (d3_step phys st))))"
      unfolding al d3_step_count by blast
    show ?thesis
      using firstStop_Suc[OF False n] cnt res nr
      by (intro exI[of _ "Suc n"]) (simp add: run_step[OF rn])
  qed
qed

lemma nat_pow_227: "(97::nat) ^ 227 * 1000 < 100 ^ 227"
  by simp

lemma nat_pow_226: "(100::nat) ^ 226 \<le> 97 ^ 226 * 1000"
  by simp

lemma real_frac_less: "0 < (w::real) \<Longrightarrow> v * 1000 < w \<Longrightarrow> v / w < 1 / 1000"
  by (simp add: field_simps)

lemma real_frac_ge: "0 < (w::real) \<Longrightarrow> w \<le> v * 1000 \<Longrightarrow> 1 / 1000 \<le> v / w"
  by (simp add: field_simps)

lemma ten_pows: "(10::real) ^ 2 = 100" "(10::real) ^ 3 = 1000"
  by simp_all

lemma pow_227: "(0.97::real) ^ 227 < 0.001"
proof -
  have "real (97 ^ 227 * 1000) < real (100 ^ 227)"
    by (simp only: of_nat_less_iff nat_pow_227)
  then have "(97::real) ^ 227 * 1000 < 100 ^ 227"
    by (simp only: of_nat_mult of_nat_power of_nat_numeral)
  moreover have "(0::real) < 100 ^ 227"
    by (rule zero_less_power) simp
  ultimately have "(97::real) ^ 227 / 100 ^ 227 < 1 / 1000"
    by (intro real_frac_less)
  then show ?thesis
    by (simp only: power_divide ten_pows)
qed

lemma pow_226: "(0.001::real) \<le> 0.97 ^ 226"
proof -
  have "real (100 ^ 226) \<le> real (97 ^ 226 * 1000)"
    by (simp only: of_nat_le_iff nat_pow_226)
  then have "(100::real) ^ 226 \<le> 97 ^ 226 * 1000"
    by (simp only: of_nat_mult of_nat_power of_nat_numeral)
  moreover have "(0::real) < 100 ^ 226"
    by (rule zero_less_power) simp
  ultimately have "1 / 1000 \<le> (97::real) ^ 226 / 100 ^ 226"
    by (intro real_frac_ge)
  then show ?thesis
    by (simp only: power_divide ten_pows)
qed

lemma simOk_constructor: "simOk (constructor cfg)"
  by (simp add: simOk_def constructor_def)

lemma simulation_preprocess [simp]: "simulation (preprocessData rnd g s) = simulation s"
  by (simp add: preprocessData_def Let_def)

lemma setupForces_sim:
  "alpha (simulation (setupForces s)) = alpha (simulation s)"
  "alphaMin (simulation (setupForces s)) = alphaMin (simulation s)"
  "alphaDecay (simulation (setupForces s)) = alphaDecay (simulation s)"
  "alphaTarget (simulation (setupForces s)) = alphaTarget (simulation s)"
  by (simp_all add: setupForces_def addSphericalConstraint_def addCommunityForces_def
      calculateCommunityCenters_def Let_def)

definition startState :: "(nat \<Rightarrow> real) \<Rightarrow> graphData \<Rightarrow> engine \<Rightarrow> runState" where
  "startState rnd g s =
     (let s1 = setupForces (preprocessData rnd g s)
      in \<lparr>rs_engine = restart (s1\<lparr>simulation := (simulation s1)\<lparr>f_linkBound := True\<rparr>\<rparr>),
          iterationCount = 0, resolved = None\<rparr>)"

lemma generateLayout_run: "generateLayout phys rnd g s = run phys (startState rnd g s)"
  by (simp add: generateLayout_def startState_def Let_def)

lemma startState_facts:
  "iterationCount (startState rnd g s) = 0" "resolved (startState rnd g s) = None"
  "running (simulation (rs_engine (startState rnd g s)))"
  "alpha (simulation (rs_engine (startState rnd g s))) = alpha (simulation s)"
  "simOk (rs_engine (startState rnd g s)) = simOk s"
  by (simp_all add: startState_def Let_def restart_def simOk_def setupForces_sim)

lemma generateLayout_firstStop:
  assumes "simOk s"
  shows "\<exists>n. firstStop (alpha (simulation s)) 0 n \<and>
             iterationCount (generateLayout phys rnd g s) = n \<and>
             resolved (generateLayout phys rnd g s) =
               Some (layoutOf (rs_engine (generateLayout phys rnd g s))) \<and>
             \<not> running (simulation (rs_engine (generateLayout phys rnd g s)))"
  using run_resolves[of "startState rnd g s" phys] assms
  by (simp add: generateLayout_run startState_facts)

text \<open>
  Claim C2. For a simulation with the decay, floor and target the constructor sets, the run
  of \<open>generateLayout\<close> stops with the promise resolved at tick \<open>n\<close>, the first tick at which the
  count has reached 500 or the energy, multiplied by 0.97 at every tick, is below 0.001;
  no earlier tick stops it, and \<open>n\<close> is at most 500.
\<close>

theorem generateLayout_stops:
  assumes "alphaMin (simulation s) = 0.001" and "alphaDecay (simulation s) = 0.03"
    and "alphaTarget (simulation s) = 0"
  shows "\<exists>n. iterationCount (generateLayout phys rnd g s) = n \<and> 1 \<le> n \<and> n \<le> 500 \<and>
             (n = 500 \<or> alpha (simulation s) * 0.97 ^ n < 0.001) \<and>
             (\<forall>k. 1 \<le> k \<and> k < n \<longrightarrow> 0.001 \<le> alpha (simulation s) * 0.97 ^ k) \<and>
             resolved (generateLayout phys rnd g s) =
               Some (layoutOf (rs_engine (generateLayout phys rnd g s))) \<and>
             \<not> running (simulation (rs_engine (generateLayout phys rnd g s)))"
proof -
  have "simOk s" using assms by (simp add: simOk_def)
  from generateLayout_firstStop[OF this, of phys rnd g] obtain n where
    f: "firstStop (alpha (simulation s)) 0 n"
    and r: "iterationCount (generateLayout phys rnd g s) = n"
      "resolved (generateLayout phys rnd g s) =
               Some (layoutOf (rs_engine (generateLayout phys rnd g s)))"
      "\<not> running (simulation (rs_engine (generateLayout phys rnd g s)))"
    by blast
  have le: "n \<le> 500"
  proof (rule ccontr)
    assume "\<not> n \<le> 500"
    then have "1 \<le> (500::nat) \<and> 500 < n" by simp
    then have "0 + 500 < maxIterations"
      using f unfolding firstStop_def by blast
    then show False by (simp add: maxIterations_def)
  qed
  have "1 \<le> n" "n = 500 \<or> alpha (simulation s) * 0.97 ^ n < 0.001"
    "\<forall>k. 1 \<le> k \<and> k < n \<longrightarrow> 0.001 \<le> alpha (simulation s) * 0.97 ^ k"
    using f le by (auto simp: firstStop_def maxIterations_def)
  with r le show ?thesis by blast
qed

definition noMotion :: "engine \<Rightarrow> nat \<Rightarrow> motion" where
  "noMotion s i = ((0, 0, 0), (0, 0, 0))"

definition exampleEntity :: "string \<Rightarrow> string \<Rightarrow> real \<Rightarrow> real \<Rightarrow> entity" where
  "exampleEntity i t f d =
     \<lparr>e_id = i, e_human_readable_id = i, e_title = t, e_type = ''PERSON'', e_description = [],
      e_text_unit_ids = [], e_frequency = f, e_degree = d\<rparr>"

definition exampleRelationship :: "string \<Rightarrow> string \<Rightarrow> string \<Rightarrow> relationship" where
  "exampleRelationship i a b =
     \<lparr>r_id = i, r_human_readable_id = i, r_source = a, r_target = b, r_description = [],
      r_weight = 1, r_combined_degree = 0, r_text_unit_ids = []\<rparr>"

definition exampleGraph :: graphData where
  "exampleGraph =
     \<lparr>entities = [exampleEntity ''e1'' ''Ada'' 1 2, exampleEntity ''e2'' ''Bob'' 1 1],
      relationships = [exampleRelationship ''r1'' ''e1'' ''Bob'',
                       exampleRelationship ''r2'' ''e1'' ''zz''],
      communities = []\<rparr>"

theorem generateLayout_stops_witness:
  "alphaMin (simulation (constructor defaultForceConfig)) = 0.001 \<and>
   alphaDecay (simulation (constructor defaultForceConfig)) = 0.03 \<and>
   alphaTarget (simulation (constructor defaultForceConfig)) = 0 \<and>
   alpha (simulation (constructor defaultForceConfig)) = 1 \<and>
   iterationCount (generateLayout noMotion (\<lambda>i. 0) exampleGraph (constructor defaultForceConfig)) = 227 \<and>
   resolved (generateLayout noMotion (\<lambda>i. 0) exampleGraph (constructor defaultForceConfig)) \<noteq> None"
proof -
  let ?s = "constructor defaultForceConfig"
  have h: "alphaMin (simulation ?s) = 0.001" "alphaDecay (simulation ?s) = 0.03"
    "alphaTarget (simulation ?s) = 0" and a: "alpha (simulation ?s) = 1"
    by (simp_all add: constructor_def)
  from generateLayout_stops[OF h, of noMotion "\<lambda>i. 0" exampleGraph] obtain n where
    n: "iterationCount (generateLayout noMotion (\<lambda>i. 0) exampleGraph ?s) = n"
    and c: "n = 500 \<or> (0.97::real) ^ n < 0.001"
    and m: "\<forall>k. 1 \<le> k \<and> k < n \<longrightarrow> (0.001::real) \<le> 0.97 ^ k"
    and r: "resolved (generateLayout noMotion (\<lambda>i. 0) exampleGraph ?s) \<noteq> None"
    unfolding a by auto
  have "\<not> 227 < n"
  proof
    assume "227 < n"
    then have "1 \<le> (227::nat) \<and> 227 < n" by simp
    then have "(0.001::real) \<le> 0.97 ^ 227" using m by blast
    then show False using pow_227 by (blast dest: leD)
  qed
  moreover have "\<not> n < 227"
  proof
    assume l: "n < 227"
    then have lt: "(0.97::real) ^ n < 0.001" using c by simp
    have "(0.97::real) ^ 226 \<le> 0.97 ^ n"
      using l by (intro power_decreasing) simp_all
    then have "(0.001::real) \<le> 0.97 ^ n"
      by (rule order_trans[OF pow_226])
    then show False using lt by (blast dest: leD)
  qed
  ultimately have "n = 227" by simp
  then show ?thesis using h a n r by simp
qed

lemma example_resolvable:
  "resolvable exampleGraph ''e1''" "resolvable exampleGraph ''Bob''" "\<not> resolvable exampleGraph ''zz''"
  by (simp_all add: resolvable_def names_def exampleGraph_def exampleEntity_def)

lemma example_relationships:
  "relationships exampleGraph =
     [exampleRelationship ''r1'' ''e1'' ''Bob'', exampleRelationship ''r2'' ''e1'' ''zz'']"
  by (simp add: exampleGraph_def)

theorem generateLayout_links_resolved_witness:
  "\<exists>L. resolved (generateLayout noMotion (\<lambda>i. 0) exampleGraph (constructor defaultForceConfig)) = Some L \<and>
        map l_id (gl_links L) = [''r1''] \<and>
        l_source (hd (gl_links L)) < length (gl_nodes L) \<and>
        l_target (hd (gl_links L)) < length (gl_nodes L) \<and>
        names (gl_nodes L ! l_target (hd (gl_links L))) ''Bob'' \<and>
        console (rs_engine (generateLayout noMotion (\<lambda>i. 0) exampleGraph (constructor defaultForceConfig))) =
          [''Relationship link missing node: e1 -> zz'']"
proof -
  let ?fin = "generateLayout noMotion (\<lambda>i. 0) exampleGraph (constructor defaultForceConfig)"
  define L where "L = layoutOf (rs_engine ?fin)"
  have res: "resolved ?fin = Some L"
    using generateLayout_firstStop[OF simOk_constructor, where phys=noMotion and rnd="\<lambda>i. 0" and g=exampleGraph]
    by (auto simp: L_def)
  have rels: "filter (\<lambda>rel. resolvable exampleGraph (r_source rel) \<and> resolvable exampleGraph (r_target rel))
                (relationships exampleGraph) = [exampleRelationship ''r1'' ''e1'' ''Bob'']"
    "filter (\<lambda>rel. \<not> (resolvable exampleGraph (r_source rel) \<and> resolvable exampleGraph (r_target rel)))
                (relationships exampleGraph) = [exampleRelationship ''r2'' ''e1'' ''zz'']"
    by (simp_all add: example_relationships exampleRelationship_def example_resolvable)
  from generateLayout_links_resolved[OF res]
  have a: "\<forall>l \<in> set (gl_links L). l_source l < length (gl_nodes L) \<and> l_target l < length (gl_nodes L)"
    and b: "list_all2 (\<lambda>l rel. l_id l = r_id rel \<and> names (gl_nodes L ! l_source l) (r_source rel)
                       \<and> names (gl_nodes L ! l_target l) (r_target rel))
           (gl_links L) [exampleRelationship ''r1'' ''e1'' ''Bob'']"
    and c: "console (rs_engine ?fin) =
           console (constructor defaultForceConfig) @ map linkWarning [exampleRelationship ''r2'' ''e1'' ''zz'']"
    unfolding rels by blast+
  from b obtain l where l: "gl_links L = [l]" "l_id l = ''r1''"
    "names (gl_nodes L ! l_target l) ''Bob''"
    by (auto simp: list_all2_Cons2 exampleRelationship_def)
  have "l_source l < length (gl_nodes L)" "l_target l < length (gl_nodes L)"
    using a l by simp_all
  moreover have "console (rs_engine ?fin) = [''Relationship link missing node: e1 -> zz'']"
    unfolding c by (simp add: constructor_def linkWarning_def exampleRelationship_def)
  ultimately show ?thesis using res l by (intro exI[of _ L]) simp
qed

section \<open>Normalisation of the abstraction score\<close>

lemma fold_max_const: "(\<forall>v \<in> set vs. v = c) \<Longrightarrow> fold max vs (c::real) = c"
  by (induction vs) auto

lemma fold_min_const: "(\<forall>v \<in> set vs. v = c) \<Longrightarrow> fold min vs (c::real) = c"
  by (induction vs) auto

lemma normalizedAbstraction_equal:
  assumes "\<forall>e \<in> set es. abstractionScore e = c"
  shows "normalizedAbstraction es e0 = 0.5"
proof (cases es)
  case Nil
  then show ?thesis by (simp add: normalizedAbstraction_def)
next
  case (Cons d ds)
  have d: "abstractionScore d = c"
    using assms by (simp add: Cons)
  have "\<forall>v \<in> set (map abstractionScore ds). v = c"
    using assms by (simp add: Cons)
  then have "fold max (map abstractionScore ds) c = c" "fold min (map abstractionScore ds) c = c"
    by (simp_all only: fold_max_const fold_min_const)
  then show ?thesis
    by (simp add: normalizedAbstraction_def Cons d)
qed

lemma radiusOf_half: "radiusOf cfg 0.5 = (spread3D cfg * 0.1 + spread3D cfg) / 2"
  by (simp add: radiusOf_def Let_def algebra_simps)

definition seedNode :: "forceConfig \<Rightarrow> (nat \<Rightarrow> real) \<Rightarrow> nat \<Rightarrow> nat \<Rightarrow> node3d \<Rightarrow> real \<Rightarrow> bool" where
  "seedNode cfg rnd i cnt node r =
     (n_x node = r * (0.9 + rnd i * 0.2) * sin (spiralPhi i cnt) * cos (spiralTheta i) \<and>
      n_y node = r * (0.9 + rnd i * 0.2) * sin (spiralPhi i cnt) * sin (spiralTheta i) \<and>
      n_z node = r * (0.9 + rnd i * 0.2) * cos (spiralPhi i cnt))"

lemma nodes_preprocess_nth:
  "i < length (entities g) \<Longrightarrow>
   nodes (preprocessData rnd g s) ! i = makeNode (config s) rnd g i (entities g ! i)"
  by (simp add: preprocessData_def Let_def nth_enumerate_eq)

lemma length_nodes_preprocess [simp]:
  "length (nodes (preprocessData rnd g s)) = length (entities g)"
  by (simp add: preprocessData_def Let_def)

lemma finalRadius_half:
  "finalRadius cfg 0.5 lv =
     (spread3D cfg * 0.1 + spread3D cfg) / 2 + of_int lv * levelSpacing cfg * 0.3"
  by (simp add: finalRadius_def radiusOf_def Let_def algebra_simps)

lemma makeNode_seed:
  "seedNode cfg rnd i (length (entities g)) (makeNode cfg rnd g i e)
     (finalRadius cfg (abstractionLevel (makeNode cfg rnd g i e))
        (n_communityLevel (makeNode cfg rnd g i e)))"
  by (simp add: makeNode_def Let_def seedNode_def)

lemma sphericalTargetRadius_final:
  "sphericalTargetRadius cfg node =
     finalRadius cfg (orDefault (abstractionLevel node) 0.5) (n_communityLevel node)"
  by (simp add: sphericalTargetRadius_def finalRadius_def Let_def)

lemma orDefault_half: "orDefault 0.5 0.5 = 0.5"
  by (simp add: orDefault_def)

lemma makeNode_abstraction:
  "abstractionLevel (makeNode cfg rnd g i e) = normalizedAbstraction (entities g) e"
  by (simp add: makeNode_def Let_def)

text \<open>
Claim C10. When every entity has the same abstraction score (a single entity included),
  the normalisation divides by nothing: every node gets the abstraction level 0.5, its seed
  position lies on the golden-angle spiral at the midpoint of \<open>[0.1 \<times> spread, spread]\<close> plus
  its community-level offset (times the random jitter factor), and the spherical force
  pulls it to that same radius.
\<close>

theorem equal_scores_midpoint:
  assumes eq: "\<forall>e \<in> set (entities g). abstractionScore e = c"
    and i: "i < length (entities g)"
  shows "abstractionLevel (nodes (preprocessData rnd g s) ! i) = 0.5 \<and>
         seedNode (config s) rnd i (length (entities g)) (nodes (preprocessData rnd g s) ! i)
           ((spread3D (config s) * 0.1 + spread3D (config s)) / 2 +
             of_int (n_communityLevel (nodes (preprocessData rnd g s) ! i)) * levelSpacing (config s) * 0.3) \<and>
         sphericalTargetRadius (config s) (nodes (preprocessData rnd g s) ! i) =
           (spread3D (config s) * 0.1 + spread3D (config s)) / 2 +
             of_int (n_communityLevel (nodes (preprocessData rnd g s) ! i)) * levelSpacing (config s) * 0.3"
proof -
  define node where "node = makeNode (config s) rnd g i (entities g ! i)"
  have a: "abstractionLevel node = 0.5"
    unfolding node_def makeNode_abstraction by (rule normalizedAbstraction_equal[OF eq])
  have "seedNode (config s) rnd i (length (entities g)) node
          (finalRadius (config s) (abstractionLevel node) (n_communityLevel node))"
    unfolding node_def by (rule makeNode_seed)
  then have b: "seedNode (config s) rnd i (length (entities g)) node
          ((spread3D (config s) * 0.1 + spread3D (config s)) / 2 +
             of_int (n_communityLevel node) * levelSpacing (config s) * 0.3)"
    unfolding a finalRadius_half .
  have c: "sphericalTargetRadius (config s) node =
          (spread3D (config s) * 0.1 + spread3D (config s)) / 2 +
             of_int (n_communityLevel node) * levelSpacing (config s) * 0.3"
    unfolding sphericalTargetRadius_final a orDefault_half finalRadius_half ..
  show ?thesis
    unfolding nodes_preprocess_nth[OF i] node_def[symmetric] using a b c by blast
qed


definition exampleCommunity ::
  "string \<Rightarrow> string \<Rightarrow> int \<Rightarrow> string option \<Rightarrow> string list option \<Rightarrow> string list \<Rightarrow> community" where
  "exampleCommunity i h lv p chs es =
     \<lparr>c_id = i, c_human_readable_id = h, c_community = h, c_level = lv, c_parent = p,
      c_children = chs, c_title = [], c_entity_ids = es, c_relationship_ids = [],
      c_text_unit_ids = [], c_period = [], c_size = 0, computedBounds = None,
      computedHierarchy = None, computedColor = None, computedOpacity = None\<rparr>"

definition singleGraph :: graphData where
  "singleGraph =
     \<lparr>entities = [exampleEntity ''e1'' ''Ada'' 1 2],
      relationships = [],
      communities = [exampleCommunity ''c1'' ''0'' 1 None (Some []) [''e1'']]\<rparr>"

lemma singleGraph_node:
  "nodes (preprocessData rnd singleGraph s) ! 0 =
     makeNode (config s) rnd singleGraph 0 (exampleEntity ''e1'' ''Ada'' 1 2)"
  by (simp add: nodes_preprocess_nth singleGraph_def)

lemma singleGraph_level:
  "n_communityLevel (makeNode cfg rnd singleGraph 0 (exampleEntity ''e1'' ''Ada'' 1 2)) = 1"
  by (simp add: makeNode_def Let_def singleGraph_def entityToCommunity_def exampleCommunity_def
      exampleEntity_def)

theorem equal_scores_midpoint_witness:
  "abstractionLevel (nodes (preprocessData (\<lambda>i. 0) singleGraph (constructor defaultForceConfig)) ! 0) = 0.5 \<and>
   sphericalTargetRadius defaultForceConfig
     (nodes (preprocessData (\<lambda>i. 0) singleGraph (constructor defaultForceConfig)) ! 0) = 94.5"
proof -
  have h: "\<forall>e \<in> set (entities singleGraph). abstractionScore e = 2.5"
    by (simp add: singleGraph_def exampleEntity_def abstractionScore_def)
  have i: "0 < length (entities singleGraph)"
    by (simp add: singleGraph_def)
  have c: "config (constructor defaultForceConfig) = defaultForceConfig"
    by (simp add: constructor_def)
  from equal_scores_midpoint[OF h i, of "\<lambda>i. 0" "constructor defaultForceConfig"]
  show ?thesis
    unfolding c singleGraph_node singleGraph_level
    by (simp add: defaultForceConfig_def)
qed

section \<open>Reconfiguration keeps the positions\<close>

definition emptyConfig :: partialConfig where
  "emptyConfig =
     \<lparr>p_chargeStrength = None, p_linkDistance = None, p_linkStrength = None,
      p_collisionRadius = None, p_communityStrength = None, p_centerStrength = None,
      p_spread3D = None, p_levelSpacing = None, p_sphericalConstraint = None\<rparr>"

definition keepsGraph :: "(engine \<Rightarrow> engine) \<Rightarrow> bool" where
  "keepsGraph f = (\<forall>s. nodes (f s) = nodes s \<and> links (f s) = links s \<and> comms (f s) = comms s)"

lemma keepsGraph_forceUpdates: "f \<in> set (forceUpdates ch) \<Longrightarrow> keepsGraph f"
  by (auto simp: forceUpdates_def keepsGraph_def Let_def updateSphericalForce_def
      updateCommunityForce_def calculateCommunityCenters_def)

lemma keepsGraph_fold:
  "(\<And>f. f \<in> set fs \<Longrightarrow> keepsGraph f) \<Longrightarrow> keepsGraph (fold (\<lambda>f t. f t) fs)"
  by (induction fs) (auto simp: keepsGraph_def)

lemma updateIndividualForces_graph:
  "updateIndividualForces ch failAt s = r \<Longrightarrow>
   (case r of Inl t \<Rightarrow> nodes t = nodes s \<and> links t = links s \<and> comms t = comms s
            | Inr t \<Rightarrow> nodes t = nodes s \<and> links t = links s \<and> comms t = comms s)"
proof -
  have a: "keepsGraph (fold (\<lambda>f t. f t) (forceUpdates ch))"
    by (rule keepsGraph_fold) (rule keepsGraph_forceUpdates)
  have b: "keepsGraph (fold (\<lambda>f t. f t) (take k (forceUpdates ch)))" for k
    by (rule keepsGraph_fold) (meson in_set_takeD keepsGraph_forceUpdates)
  assume "updateIndividualForces ch failAt s = r"
  then show ?thesis
    using a b by (auto simp: updateIndividualForces_def keepsGraph_def split: option.splits if_splits)
qed

lemma updateIndividualForces_fails:
  "(\<exists>t. updateIndividualForces ch failAt s = Inl t) = (case failAt of None \<Rightarrow> False | Some k \<Rightarrow> k < 5)"
  by (auto simp: updateIndividualForces_def forceUpdates_def split: option.splits)

lemma mergeConfig_empty [simp]: "mergeConfig cfg emptyConfig = cfg"
  by (simp add: mergeConfig_def emptyConfig_def orElse_def)

lemma forceUpdates_empty: "fold (\<lambda>f t. f t) (forceUpdates emptyConfig) s = s"
  by (simp add: forceUpdates_def emptyConfig_def)

lemma updateConfig_unfold:
  "updateConfig newConfig failAt s =
     (if length (nodes s) = 0 then s\<lparr>config := mergeConfig (config s) newConfig\<rparr>
      else (case updateIndividualForces newConfig failAt
                  (s\<lparr>config := mergeConfig (config s) newConfig\<rparr>) of
           Inr s2 \<Rightarrow> restart (setAlpha 0.1 s2)
         | Inl s2 \<Rightarrow>
             restart (setAlpha 0.05 (setupForces (s2\<lparr>console := console s2 @
                          [''Force config update failed, falling back to full setup:'']\<rparr>)))))"
  by (simp add: updateConfig_def Let_def split: sum.splits)

lemma updateConfig_empty:
  "updateConfig emptyConfig None s = (if length (nodes s) = 0 then s else restart (setAlpha 0.1 s))"
  by (simp add: updateConfig_unfold updateIndividualForces_def forceUpdates_empty)

lemma restart_setAlpha:
  "nodes (restart (setAlpha a t)) = nodes t" "links (restart (setAlpha a t)) = links t"
  "comms (restart (setAlpha a t)) = comms t" "alpha (simulation (restart (setAlpha a t))) = a"
  by (simp_all add: restart_def setAlpha_def)

lemma updateConfig_graph:
  "nodes (updateConfig newConfig failAt s) = nodes s \<and>
   links (updateConfig newConfig failAt s) = links s \<and>
   comms (updateConfig newConfig failAt s) = comms s \<and>
   alpha (simulation (updateConfig newConfig failAt s)) =
     (if length (nodes s) = 0 then alpha (simulation s)
      else case failAt of None \<Rightarrow> 0.1 | Some k \<Rightarrow> if k < 5 then 0.05 else 0.1)"
proof -
  define s1 where "s1 = s\<lparr>config := mergeConfig (config s) newConfig\<rparr>"
  have s1: "nodes s1 = nodes s" "links s1 = links s" "comms s1 = comms s"
    "simulation s1 = simulation s"
    by (simp_all add: s1_def)
  note u = updateConfig_unfold[of newConfig failAt s, folded s1_def]
  show ?thesis
  proof (cases "length (nodes s) = 0")
    case True
    then show ?thesis by (simp add: u s1)
  next
    case False
    show ?thesis
    proof (cases "updateIndividualForces newConfig failAt s1")
      case (Inl t)
      from updateIndividualForces_graph[OF Inl]
      have g: "nodes t = nodes s" "links t = links s" "comms t = comms s"
        by (simp_all add: s1)
      from updateIndividualForces_fails[of newConfig failAt s1] Inl
      have f: "case failAt of None \<Rightarrow> False | Some k \<Rightarrow> k < 5" by simp
      have r: "updateConfig newConfig failAt s =
          restart (setAlpha 0.05 (setupForces (t\<lparr>console := console t @
                          [''Force config update failed, falling back to full setup:'']\<rparr>)))"
        using False by (simp add: u Inl)
      show ?thesis
        unfolding r restart_setAlpha using False f g by (simp split: option.splits)
    next
      case (Inr t)
      from updateIndividualForces_graph[OF Inr]
      have g: "nodes t = nodes s" "links t = links s" "comms t = comms s"
        by (simp_all add: s1)
      from updateIndividualForces_fails[of newConfig failAt s1] Inr
      have f: "\<not> (case failAt of None \<Rightarrow> False | Some k \<Rightarrow> k < 5)" by simp
      have r: "updateConfig newConfig failAt s = restart (setAlpha 0.1 t)"
        using False by (simp add: u Inr)
      show ?thesis
        unfolding r restart_setAlpha using False f g by (simp split: option.splits)
    qed
  qed
qed

text \<open>
Claim C6. \<open>updateConfig\<close> leaves the node array (so every position), the links and the
  communities as they were, whatever the partial configuration and on either path; with
  nodes present the energy is 0.1 after an incremental update and 0.05 after the fallback
  to the full force setup; and \<open>updateConfig({})\<close> changes nothing but the energy and the
  restart of the timer.
\<close>

theorem updateConfig_keeps_positions:
  "nodes (updateConfig newConfig failAt s) = nodes s \<and>
   links (updateConfig newConfig failAt s) = links s \<and>
   comms (updateConfig newConfig failAt s) = comms s \<and>
   alpha (simulation (updateConfig newConfig failAt s)) =
     (if length (nodes s) = 0 then alpha (simulation s)
      else case failAt of None \<Rightarrow> 0.1 | Some k \<Rightarrow> if k < 5 then 0.05 else 0.1) \<and>
   updateConfig emptyConfig None s = (if length (nodes s) = 0 then s else restart (setAlpha 0.1 s))"
  using updateConfig_graph[of newConfig failAt s] updateConfig_empty[of s] by blast


definition exampleEngine :: engine where
  "exampleEngine = setupForces (preprocessData (\<lambda>i. 0) exampleGraph (constructor defaultForceConfig))"

theorem updateConfig_keeps_positions_witness:
  "nodes (updateConfig (emptyConfig\<lparr>p_spread3D := Some 200\<rparr>) None exampleEngine) = nodes exampleEngine \<and>
   alpha (simulation (updateConfig (emptyConfig\<lparr>p_spread3D := Some 200\<rparr>) None exampleEngine)) = 0.1 \<and>
   nodes (updateConfig (emptyConfig\<lparr>p_spread3D := Some 200\<rparr>) (Some 4) exampleEngine) = nodes exampleEngine \<and>
   alpha (simulation (updateConfig (emptyConfig\<lparr>p_spread3D := Some 200\<rparr>) (Some 4) exampleEngine)) = 0.05 \<and>
   length (nodes exampleEngine) = 2"
proof -
  have l: "length (nodes exampleEngine) = 2"
    by (simp add: exampleEngine_def exampleGraph_def)
  show ?thesis
    using updateConfig_keeps_positions[of "emptyConfig\<lparr>p_spread3D := Some 200\<rparr>" None exampleEngine]
      updateConfig_keeps_positions[of "emptyConfig\<lparr>p_spread3D := Some 200\<rparr>" "Some 4" exampleEngine]
    by (simp add: l)
qed

section \<open>Derived community data\<close>

lemma parseInt_number: "parseInt p = JNaN \<or> (\<exists>n. parseInt p = JNumber n)"
  by (simp add: parseInt_def Let_def)

lemma strictEq_string_parseInt [simp]:
  "strictEq (JString a) (parseInt p) = False" "strictEq (parseInt p) (JString a) = False"
  using parseInt_number[of p] by auto

lemma findIndex_never [simp]: "findIndex (\<lambda>c. False) cs = None"
  by (induction cs) auto

lemma fold_keep [simp]: "fold (\<lambda>h acc. acc) chs acc0 = acc0"
  by (induction chs) auto

lemma parent_never_matches [simp]:
  "(case po of None \<Rightarrow> False | Some p \<Rightarrow> strictEq (parseInt p) (JString h)) = False"
  by (cases po) simp_all

lemma filter_never [simp]: "filter (\<lambda>(j, c). False) ps = []"
  by (induction ps) auto

lemma precomputeHierarchy_empty:
  "precomputeHierarchy cs c = \<lparr>parentCommunities = [], childCommunities = []\<rparr>"
proof -
  have p: "(case c_parent c of None \<Rightarrow> []
       | Some p \<Rightarrow> (case findIndex (\<lambda>c'. strictEq (JString (c_human_readable_id c')) (parseInt p)) cs of
                     Some k \<Rightarrow> [k] | None \<Rightarrow> [])) = []"
    by (cases "c_parent c") simp_all
  have c1: "map fst (filter (\<lambda>(j, otherCommunity).
                case c_parent otherCommunity of
                  None \<Rightarrow> False
                | Some p \<Rightarrow> strictEq (parseInt p) (JString (c_human_readable_id c)))
              (enumerate 0 cs)) = []"
    by simp
  show ?thesis
    unfolding precomputeHierarchy_def Let_def c1 p
    by (cases "c_children c") simp_all
qed

definition derived :: "node3d list \<Rightarrow> community \<Rightarrow> community" where
  "derived ns c =
     c\<lparr>computedBounds :=
         (case communityBounds ns c of Some b \<Rightarrow> Some b | None \<Rightarrow> computedBounds c),
       computedHierarchy := Some \<lparr>parentCommunities = [], childCommunities = []\<rparr>,
       computedColor := levelColor (c_level c),
       computedOpacity := Some 0.15\<rparr>"

lemma precomputeOne_derived: "precomputeOne ns cs c = derived ns c"
  by (simp add: precomputeOne_def derived_def precomputeHierarchy_empty)

lemma fold_update_map:
  "n \<le> length cs \<Longrightarrow>
   fold (\<lambda>i cs. cs[i := f (cs ! i)]) [0..<n] cs = map f (take n cs) @ drop n cs"
proof (induction n)
  case 0
  then show ?case by simp
next
  case (Suc n)
  then have n: "n < length cs" by simp
  have "fold (\<lambda>i cs. cs[i := f (cs ! i)]) [0..<Suc n] cs =
        (map f (take n cs) @ drop n cs)[n := f ((map f (take n cs) @ drop n cs) ! n)]"
    using Suc by simp
  also have "(map f (take n cs) @ drop n cs) ! n = cs ! n"
    using n by (simp add: nth_append)
  also have "(map f (take n cs) @ drop n cs)[n := f (cs ! n)] =
        map f (take n cs) @ (drop n cs)[0 := f (cs ! n)]"
    using n by (simp add: list_update_append)
  also have "(drop n cs)[0 := f (cs ! n)] = f (cs ! n) # drop (Suc n) cs"
    using n by (simp add: Cons_nth_drop_Suc[symmetric])
  also have "map f (take n cs) @ f (cs ! n) # drop (Suc n) cs =
        map f (take (Suc n) cs) @ drop (Suc n) cs"
    using n by (simp add: take_Suc_conv_app_nth)
  finally show ?case .
qed

lemma precompute_map:
  "precomputeCommunityData s = s\<lparr>comms := map (derived (nodes s)) (comms s)\<rparr>"
  by (simp add: precomputeCommunityData_def precomputeOne_derived fold_update_map)

lemma communityBounds_derived [simp]: "communityBounds ns (derived ms c) = communityBounds ns c"
  by (simp add: communityBounds_def derived_def)

lemma derived_idem: "derived ns (derived ns c) = derived ns c"
proof -
  have "derived ns (derived ns c) =
      (derived ns c)\<lparr>computedBounds :=
         (case communityBounds ns c of Some b \<Rightarrow> Some b | None \<Rightarrow> computedBounds (derived ns c)),
       computedHierarchy := Some \<lparr>parentCommunities = [], childCommunities = []\<rparr>,
       computedColor := levelColor (c_level (derived ns c)),
       computedOpacity := Some 0.15\<rparr>"
    unfolding derived_def[of ns "derived ns c"] communityBounds_derived ..
  also have "\<dots> = derived ns c"
    by (cases "communityBounds ns c") (simp_all add: derived_def)
  finally show ?thesis .
qed

text \<open>
Claim C9. \<open>precomputeCommunityData\<close> is idempotent: a second run over the state the first
  run left gives that same state, so every derived field is unchanged; and it touches
  neither the simulation (no restart) nor the nodes and links.
\<close>

theorem precompute_idempotent:
  "precomputeCommunityData (precomputeCommunityData s) = precomputeCommunityData s \<and>
   simulation (precomputeCommunityData s) = simulation s \<and>
   nodes (precomputeCommunityData s) = nodes s \<and>
   links (precomputeCommunityData s) = links s"
  by (simp add: precompute_map derived_idem)

definition hierarchyEngine :: engine where
  "hierarchyEngine =
     (constructor defaultForceConfig)
       \<lparr>comms := [exampleCommunity ''a'' ''0'' 0 None (Some [''1'']) [],
                  exampleCommunity ''b'' ''1'' 1 (Some ''0'') (Some []) []]\<rparr>"

text \<open>
Claim C4 says that the parent list of a community holds the community whose
  human-readable id matches its \<open>parent\<close> field, and the child list the matching children.
  The code compares the number \<open>parseInt\<close> returns with the \<open>human_readable_id\<close> string by
  \<open>===\<close>, which is never true. For two communities of which the second names the first as
  parent and the first lists the second as child, both lists of both communities come
  out empty.
\<close>

theorem precompute_hierarchy_lists_empty:
  "c_parent (comms hierarchyEngine ! 1) = Some (c_human_readable_id (comms hierarchyEngine ! 0)) \<and>
   c_children (comms hierarchyEngine ! 0) = Some [c_human_readable_id (comms hierarchyEngine ! 1)] \<and>
   map computedHierarchy (comms (precomputeCommunityData hierarchyEngine)) =
     [Some \<lparr>parentCommunities = [], childCommunities = []\<rparr>,
      Some \<lparr>parentCommunities = [], childCommunities = []\<rparr>]"
  by (simp add: precompute_map hierarchyEngine_def derived_def exampleCommunity_def)

section \<open>Community centers\<close>









































section \<open>Hierarchies and the lookup maps of the selector\<close>

















section \<open>Breadth-first collection of the subtree\<close>













section \<open>The resolved root\<close>











section \<open>Failure inside the selector\<close>





section \<open>The subtree of the resolved root\<close>




















end
